theory Spec2Isabelle
  imports Complex_Main
begin

section \<open>Values exchanged with the estimation service\<close>

text \<open>
  The decoded reply of the webhook is an untyped JavaScript value (\<open>response.json()\<close>),
  and the request body is an object literal handed to \<open>JSON.stringify\<close>. Both are
  modelled by one datatype of JavaScript values. An object is its list of properties in
  insertion order. Numbers are carried, never computed with, by the logic modelled here;
  they are represented by rationals. \<open>JUndefined\<close> is what indexing an array out of
  range yields.
\<close>

datatype jsval =
    JUndefined
  | JNull
  | JBool bool
  | JNumber rat
  | JString string
  | JArray "jsval list"
  | JObject "(string \<times> jsval) list"

text \<open>\<open>Array.isArray(v)\<close>.\<close>

fun Array_isArray :: "jsval \<Rightarrow> bool" where
  "Array_isArray (JArray xs) = True"
| "Array_isArray v = False"

text \<open>\<open>data[0]\<close> on an array: the first element, \<open>undefined\<close> when there is none.\<close>

fun element0 :: "jsval \<Rightarrow> jsval" where
  "element0 (JArray (x # xs)) = x"
| "element0 v = JUndefined"

text \<open>The truth value JavaScript gives a value in a condition (\<open>estimate ? ... : ...\<close>).\<close>

fun truthy :: "jsval \<Rightarrow> bool" where
  "truthy JUndefined = False"
| "truthy JNull = False"
| "truthy (JBool b) = b"
| "truthy (JNumber n) = (n \<noteq> 0)"
| "truthy (JString s) = (s \<noteq> [])"
| "truthy (JArray xs) = True"
| "truthy (JObject kvs) = True"

text \<open>Reading a property: \<open>undefined\<close> when the property is absent.\<close>

fun property :: "jsval \<Rightarrow> string \<Rightarrow> jsval" where
  "property (JObject kvs) k = (case map_of kvs k of Some v \<Rightarrow> v | None \<Rightarrow> JUndefined)"
| "property v k = JUndefined"

text \<open>The property names of an object, in order.\<close>

fun keys :: "jsval \<Rightarrow> string list" where
  "keys (JObject kvs) = map fst kvs"
| "keys v = []"

section \<open>The form data and the request derived from it\<close>

text \<open>
  \<open>interface FormData\<close>. The three numeric fields only ever receive
  \<open>parseInt(...) || 0\<close>, an integer. The fields declared with \<open>?\<close> are optional.
\<close>

record FormData =
  callsPerDay :: int
  avgCallDuration :: int
  estimatedUsers :: int
  llmProvider :: string
  customLlmProvider :: "string option"
  sttProvider :: string
  customSttProvider :: "string option"
  ttsProvider :: string
  customTtsProvider :: "string option"
  knowledgeBaseSize :: string
  selfHosted :: bool
  gpuInstanceType :: "string option"

text \<open>The initial value given to \<open>useState<FormData>\<close>.\<close>

definition initialFormData :: FormData where
  "initialFormData =
     \<lparr> callsPerDay = 50, avgCallDuration = 5, estimatedUsers = 10,
       llmProvider = [], customLlmProvider = Some [],
       sttProvider = [], customSttProvider = Some [],
       ttsProvider = [], customTtsProvider = Some [],
       knowledgeBaseSize = [], selfHosted = False, gpuInstanceType = Some [] \<rparr>"

text \<open>
  \<open>handleInputChange(field, value)\<close> replaces one field of the form data. A change is
  the field together with a value of that field's type.
\<close>

datatype change =
    Set_callsPerDay int
  | Set_avgCallDuration int
  | Set_estimatedUsers int
  | Set_llmProvider string
  | Set_customLlmProvider "string option"
  | Set_sttProvider string
  | Set_customSttProvider "string option"
  | Set_ttsProvider string
  | Set_customTtsProvider "string option"
  | Set_knowledgeBaseSize string
  | Set_selfHosted bool
  | Set_gpuInstanceType "string option"

fun field_name :: "change \<Rightarrow> string" where
  "field_name (Set_callsPerDay v) = ''callsPerDay''"
| "field_name (Set_avgCallDuration v) = ''avgCallDuration''"
| "field_name (Set_estimatedUsers v) = ''estimatedUsers''"
| "field_name (Set_llmProvider v) = ''llmProvider''"
| "field_name (Set_customLlmProvider v) = ''customLlmProvider''"
| "field_name (Set_sttProvider v) = ''sttProvider''"
| "field_name (Set_customSttProvider v) = ''customSttProvider''"
| "field_name (Set_ttsProvider v) = ''ttsProvider''"
| "field_name (Set_customTtsProvider v) = ''customTtsProvider''"
| "field_name (Set_knowledgeBaseSize v) = ''knowledgeBaseSize''"
| "field_name (Set_selfHosted v) = ''selfHosted''"
| "field_name (Set_gpuInstanceType v) = ''gpuInstanceType''"

fun handleInputChange :: "change \<Rightarrow> FormData \<Rightarrow> FormData" where
  "handleInputChange (Set_callsPerDay v) prev = prev\<lparr>callsPerDay := v\<rparr>"
| "handleInputChange (Set_avgCallDuration v) prev = prev\<lparr>avgCallDuration := v\<rparr>"
| "handleInputChange (Set_estimatedUsers v) prev = prev\<lparr>estimatedUsers := v\<rparr>"
| "handleInputChange (Set_llmProvider v) prev = prev\<lparr>llmProvider := v\<rparr>"
| "handleInputChange (Set_customLlmProvider v) prev = prev\<lparr>customLlmProvider := v\<rparr>"
| "handleInputChange (Set_sttProvider v) prev = prev\<lparr>sttProvider := v\<rparr>"
| "handleInputChange (Set_customSttProvider v) prev = prev\<lparr>customSttProvider := v\<rparr>"
| "handleInputChange (Set_ttsProvider v) prev = prev\<lparr>ttsProvider := v\<rparr>"
| "handleInputChange (Set_customTtsProvider v) prev = prev\<lparr>customTtsProvider := v\<rparr>"
| "handleInputChange (Set_knowledgeBaseSize v) prev = prev\<lparr>knowledgeBaseSize := v\<rparr>"
| "handleInputChange (Set_selfHosted v) prev = prev\<lparr>selfHosted := v\<rparr>"
| "handleInputChange (Set_gpuInstanceType v) prev = prev\<lparr>gpuInstanceType := v\<rparr>"

text \<open>
  \<open>isFormValid\<close> of App.tsx. The JavaScript conjunction of three comparisons and four
  strings is used only for its truth value (\<open>!isFormValid()\<close>); a string is true when it
  is not empty.
\<close>

definition isFormValid :: "FormData \<Rightarrow> bool" where
  "isFormValid fd \<longleftrightarrow>
     callsPerDay fd > 0 \<and>
     avgCallDuration fd > 0 \<and>
     estimatedUsers fd > 0 \<and>
     llmProvider fd \<noteq> [] \<and>
     sttProvider fd \<noteq> [] \<and>
     ttsProvider fd \<noteq> [] \<and>
     knowledgeBaseSize fd \<noteq> []"

text \<open>The object literal \<open>requestData\<close> built in \<open>handleSubmit\<close> of App.tsx.\<close>

definition requestData :: "FormData \<Rightarrow> jsval" where
  "requestData fd = JObject
     [ (''callsPerDay'', JNumber (of_int (callsPerDay fd))),
       (''avgCallDuration'', JNumber (of_int (avgCallDuration fd))),
       (''estimatedUsers'', JNumber (of_int (estimatedUsers fd))),
       (''llmProvider'', JString (llmProvider fd)),
       (''sttProvider'', JString (sttProvider fd)),
       (''ttsProvider'', JString (ttsProvider fd)),
       (''knowledgeBaseSize'', JString (knowledgeBaseSize fd)),
       (''selfHosted'', JBool False),
       (''gpuInstanceType'', JString []) ]"

text \<open>The same two definitions as App\_fixed.tsx writes them.\<close>

definition isFormValid_fixed :: "FormData \<Rightarrow> bool" where
  "isFormValid_fixed fd \<longleftrightarrow>
     callsPerDay fd > 0 \<and>
     avgCallDuration fd > 0 \<and>
     estimatedUsers fd > 0 \<and>
     llmProvider fd \<noteq> [] \<and>
     sttProvider fd \<noteq> [] \<and>
     ttsProvider fd \<noteq> [] \<and>
     knowledgeBaseSize fd \<noteq> []"

definition requestData_fixed :: "FormData \<Rightarrow> jsval" where
  "requestData_fixed fd = JObject
     [ (''callsPerDay'', JNumber (of_int (callsPerDay fd))),
       (''avgCallDuration'', JNumber (of_int (avgCallDuration fd))),
       (''estimatedUsers'', JNumber (of_int (estimatedUsers fd))),
       (''llmProvider'', JString (llmProvider fd)),
       (''sttProvider'', JString (sttProvider fd)),
       (''ttsProvider'', JString (ttsProvider fd)),
       (''knowledgeBaseSize'', JString (knowledgeBaseSize fd)),
       (''selfHosted'', JBool False),
       (''gpuInstanceType'', JString []) ]"

section \<open>The shape of a cost estimate\<close>

text \<open>
  \<open>interface CostEstimate\<close> of App.tsx, read as a predicate on a decoded document:
  every required property is present with the declared type; \<open>recommendations\<close> is
  optional.
\<close>

fun is_number :: "jsval \<Rightarrow> bool" where
  "is_number (JNumber n) = True"
| "is_number v = False"

fun is_string :: "jsval \<Rightarrow> bool" where
  "is_string (JString s) = True"
| "is_string v = False"

fun is_object :: "jsval \<Rightarrow> bool" where
  "is_object (JObject kvs) = True"
| "is_object v = False"

definition is_range :: "jsval \<Rightarrow> bool" where
  "is_range v \<longleftrightarrow>
     is_object v \<and> is_number (property v ''min'') \<and> is_number (property v ''max'') \<and>
     is_number (property v ''avg'')"

definition costSummary_keys :: "string list" where
  "costSummary_keys =
     [ ''totalMonthlyCostRange'', ''llmCostRange'', ''knowledgeBaseTokenCostRange'',
       ''sttCostRange'', ''ttsCostRange'', ''twilioCostRange'', ''serverCostRange'',
       ''costPerUserRange'', ''costPerCallRange'' ]"

definition is_costSummary :: "jsval \<Rightarrow> bool" where
  "is_costSummary v \<longleftrightarrow> is_object v \<and> list_all (\<lambda>k. is_range (property v k)) costSummary_keys"

text \<open>A service record: the listed string properties and a \<open>costRange\<close>.\<close>

definition is_service :: "string list \<Rightarrow> jsval \<Rightarrow> bool" where
  "is_service strs v \<longleftrightarrow>
     is_object v \<and> list_all (\<lambda>k. is_string (property v k)) strs \<and> is_range (property v ''costRange'')"

definition is_serviceDetails :: "jsval \<Rightarrow> bool" where
  "is_serviceDetails v \<longleftrightarrow>
     is_object v \<and>
     is_service [''provider'', ''model'', ''description''] (property v ''llm'') \<and>
     is_service [''provider'', ''model'', ''description''] (property v ''stt'') \<and>
     is_service [''provider'', ''model'', ''description''] (property v ''tts'') \<and>
     is_service [''provider'', ''description''] (property v ''twilio'') \<and>
     is_service [''provider'', ''instanceType'', ''description''] (property v ''server'')"

definition is_recommendations :: "jsval \<Rightarrow> bool" where
  "is_recommendations v \<longleftrightarrow>
     is_object v \<and>
     list_all (\<lambda>k. is_string (property v k))
       [''bestValueLLM'', ''bestQualityLLM'', ''bestBalanceLLM'', ''bestSTT'', ''bestTTS'']"

definition is_CostEstimate :: "jsval \<Rightarrow> bool" where
  "is_CostEstimate d \<longleftrightarrow>
     is_object d \<and>
     is_costSummary (property d ''costSummary'') \<and>
     is_serviceDetails (property d ''serviceDetails'') \<and>
     (property d ''recommendations'' = JUndefined \<or> is_recommendations (property d ''recommendations''))"

section \<open>The component state and its handlers\<close>

text \<open>
  The \<open>useState\<close> cells. App\_fixed.tsx has four of them; App.tsx has the same four and
  \<open>showResults\<close>. \<open>estimate\<close> holds whatever value \<open>setEstimate\<close> was given.
\<close>

record App_fixed_state =
  formData :: FormData
  isLoading :: bool
  estimate :: jsval
  error :: "string option"

record App_state = App_fixed_state +
  showResults :: bool

definition initial_state :: App_state where
  "initial_state =
     \<lparr> formData = initialFormData, isLoading = False, estimate = JNull, error = None,
       showResults = False \<rparr>"

definition initial_state_fixed :: App_fixed_state where
  "initial_state_fixed =
     \<lparr> formData = initialFormData, isLoading = False, estimate = JNull, error = None \<rparr>"

text \<open>The state of App.tsx without its view flag.\<close>

definition forget_view :: "App_state \<Rightarrow> App_fixed_state" where
  "forget_view s =
     \<lparr> formData = formData s, isLoading = isLoading s, estimate = estimate s,
       error = error s \<rparr>"

text \<open>
  How the awaited network call ends: \<open>fetch\<close> rejects (transport failure), or it
  resolves with a status and a body; the body is \<open>None\<close> when \<open>response.json()\<close>
  rejects because the body is not JSON. \<open>response.ok\<close> is true for the statuses
  200 to 299.
\<close>

datatype outcome =
    Rejected
  | Responded nat "jsval option"

definition response_ok :: "nat \<Rightarrow> bool" where
  "response_ok status \<longleftrightarrow> 200 \<le> status \<and> status \<le> 299"

definition errorMessage :: string where
  "errorMessage = ''Failed to calculate cost estimate. Please try again.''"

definition errorMessage_fixed :: string where
  "errorMessage_fixed = ''Failed to calculate cost estimate. Please try again.''"

text \<open>\<open>const estimateData = Array.isArray(data) ? data[0] : data\<close>.\<close>

definition estimateData :: "jsval \<Rightarrow> jsval" where
  "estimateData data = (if Array_isArray data then element0 data else data)"

text \<open>
  \<open>handleSubmit\<close> of App.tsx runs in two parts, separated by the awaited call. The
  first part sets the loading flag, clears the error and sends the request built from
  the form data of that moment; it returns the new state and the request body.
\<close>

definition handleSubmit_begin :: "App_state \<Rightarrow> App_state \<times> jsval" where
  "handleSubmit_begin s = (s\<lparr>isLoading := True, error := None\<rparr>, requestData (formData s))"

text \<open>The \<open>catch\<close> block followed by the \<open>finally\<close> block.\<close>

definition handleSubmit_catch :: "App_state \<Rightarrow> App_state" where
  "handleSubmit_catch s = s\<lparr>error := Some errorMessage, isLoading := False\<rparr>"

text \<open>The second part: what runs once the call has ended, including \<open>finally\<close>.\<close>

fun handleSubmit_settle :: "outcome \<Rightarrow> App_state \<Rightarrow> App_state" where
  "handleSubmit_settle Rejected s = handleSubmit_catch s"
| "handleSubmit_settle (Responded status body) s =
     (if \<not> response_ok status then handleSubmit_catch s
      else case body of
             None \<Rightarrow> handleSubmit_catch s
           | Some data \<Rightarrow>
               s\<lparr>estimate := estimateData data, showResults := True, isLoading := False\<rparr>)"

definition handleBackToForm :: "App_state \<Rightarrow> App_state" where
  "handleBackToForm s = s\<lparr>showResults := False, estimate := JNull, error := None\<rparr>"

text \<open>\<open>handleRetry\<close>: clear the error, then call \<open>handleSubmit\<close>.\<close>

definition handleRetry :: "App_state \<Rightarrow> App_state \<times> jsval" where
  "handleRetry s = handleSubmit_begin (s\<lparr>error := None\<rparr>)"

text \<open>\<open>handleSubmit\<close> of App\_fixed.tsx, in the same two parts.\<close>

definition handleSubmit_begin_fixed :: "App_fixed_state \<Rightarrow> App_fixed_state \<times> jsval" where
  "handleSubmit_begin_fixed s =
     (s\<lparr>isLoading := True, error := None\<rparr>, requestData_fixed (formData s))"

definition handleSubmit_catch_fixed :: "App_fixed_state \<Rightarrow> App_fixed_state" where
  "handleSubmit_catch_fixed s = s\<lparr>error := Some errorMessage_fixed, isLoading := False\<rparr>"

fun handleSubmit_settle_fixed :: "outcome \<Rightarrow> App_fixed_state \<Rightarrow> App_fixed_state" where
  "handleSubmit_settle_fixed Rejected s = handleSubmit_catch_fixed s"
| "handleSubmit_settle_fixed (Responded status body) s =
     (if \<not> response_ok status then handleSubmit_catch_fixed s
      else case body of
             None \<Rightarrow> handleSubmit_catch_fixed s
           | Some data \<Rightarrow> s\<lparr>estimate := estimateData data, isLoading := False\<rparr>)"

section \<open>What is on screen, and the session as a sequence of events\<close>

datatype view = FormScreen | ResultsScreen

text \<open>\<open>!showResults ? (form page) : (results page)\<close>.\<close>

definition viewState :: "App_state \<Rightarrow> view" where
  "viewState s = (if \<not> showResults s then FormScreen else ResultsScreen)"

text \<open>
  The lifecycle the state cells encode: a call is awaited while \<open>isLoading\<close>;
  otherwise a stored message means the last call failed, and a stored estimate that it
  succeeded.
\<close>

datatype lifecycle = Idle | Submitting | Success | Failed

definition controllerState :: "App_state \<Rightarrow> lifecycle" where
  "controllerState s =
     (if isLoading s then Submitting
      else if error s \<noteq> None then Failed
      else if truthy (estimate s) then Success
      else Idle)"

text \<open>
  The controls of App.tsx and when the markup offers them. The inputs and the submit
  button are on the form page; the button has
  \<open>disabled={!isFormValid() || isLoading}\<close>. The results page shows, when
  \<open>estimate\<close> is true, the back button and the retry button
  (\<open>disabled={isLoading}\<close>); otherwise, when \<open>error\<close> is true, the back button alone.
\<close>

definition error_shown :: "App_state \<Rightarrow> bool" where
  "error_shown s \<longleftrightarrow> (case error s of None \<Rightarrow> False | Some m \<Rightarrow> m \<noteq> [])"

definition input_offered :: "App_state \<Rightarrow> bool" where
  "input_offered s \<longleftrightarrow> \<not> showResults s"

definition submit_offered :: "App_state \<Rightarrow> bool" where
  "submit_offered s \<longleftrightarrow> \<not> showResults s \<and> \<not> (\<not> isFormValid (formData s) \<or> isLoading s)"

definition retry_offered :: "App_state \<Rightarrow> bool" where
  "retry_offered s \<longleftrightarrow> showResults s \<and> truthy (estimate s) \<and> \<not> isLoading s"

definition back_offered :: "App_state \<Rightarrow> bool" where
  "back_offered s \<longleftrightarrow> showResults s \<and> (truthy (estimate s) \<or> error_shown s)"

text \<open>
  A session: the component state, the requests that have been sent and not yet
  answered, and every request body sent so far, oldest first.
\<close>

record session =
  ui :: App_state
  inflight :: "jsval list"
  sent :: "jsval list"

definition initial_session :: session where
  "initial_session = \<lparr> ui = initial_state, inflight = [], sent = [] \<rparr>"

text \<open>Sending: the handler's new state is stored and its request goes out.\<close>

definition issue :: "App_state \<times> jsval \<Rightarrow> session \<Rightarrow> session" where
  "issue r w = w\<lparr>ui := fst r, inflight := inflight w @ [snd r], sent := sent w @ [snd r]\<rparr>"

datatype event =
    Edit change
  | Submit
  | Retry
  | Back
  | Settle nat outcome

text \<open>
  One event. A control that is not offered does nothing. \<open>Settle i r\<close> ends the
  \<open>i\<close>-th awaited request with \<open>r\<close>; there is nothing to end when no such request
  is awaited.
\<close>

fun step :: "event \<Rightarrow> session \<Rightarrow> session" where
  "step (Edit c) w =
     (if input_offered (ui w)
      then w\<lparr>ui := (ui w)\<lparr>formData := handleInputChange c (formData (ui w))\<rparr>\<rparr>
      else w)"
| "step Submit w =
     (if submit_offered (ui w) then issue (handleSubmit_begin (ui w)) w else w)"
| "step Retry w =
     (if retry_offered (ui w) then issue (handleRetry (ui w)) w else w)"
| "step Back w =
     (if back_offered (ui w) then w\<lparr>ui := handleBackToForm (ui w)\<rparr> else w)"
| "step (Settle i r) w =
     (if i < length (inflight w)
      then w\<lparr>ui := handleSubmit_settle r (ui w),
             inflight := take i (inflight w) @ drop (Suc i) (inflight w)\<rparr>
      else w)"

fun run :: "event list \<Rightarrow> session \<Rightarrow> session" where
  "run [] w = w"
| "run (e # es) w = run es (step e w)"

section \<open>Sample data and the invariant of a session\<close>

text \<open>A reply of the declared shape, and the form of the running example.\<close>

definition sample_range :: jsval where
  "sample_range = JObject [(''min'', JNumber 1), (''max'', JNumber 3), (''avg'', JNumber 2)]"

definition sample_service :: "string list \<Rightarrow> jsval" where
  "sample_service strs =
     JObject (map (\<lambda>k. (k, JString ''x'')) strs @ [(''costRange'', sample_range)])"

definition sample_estimate :: jsval where
  "sample_estimate = JObject
     [ (''costSummary'', JObject (map (\<lambda>k. (k, sample_range)) costSummary_keys)),
       (''serviceDetails'', JObject
          [ (''llm'', sample_service [''provider'', ''model'', ''description'']),
            (''stt'', sample_service [''provider'', ''model'', ''description'']),
            (''tts'', sample_service [''provider'', ''model'', ''description'']),
            (''twilio'', sample_service [''provider'', ''description'']),
            (''server'', sample_service [''provider'', ''instanceType'', ''description'']) ]) ]"

definition fill_form :: "event list" where
  "fill_form =
     [ Edit (Set_llmProvider ''OpenAI''), Edit (Set_sttProvider ''Deepgram''),
       Edit (Set_ttsProvider ''ElevenLabs''), Edit (Set_knowledgeBaseSize ''Medium (1-10MB)'') ]"

definition scenarioA_form :: FormData where
  "scenarioA_form = initialFormData\<lparr>llmProvider := ''OpenAI'', sttProvider := ''Deepgram'',
     ttsProvider := ''ElevenLabs'', knowledgeBaseSize := ''Medium (1-10MB)''\<rparr>"

text \<open>
  At most one request is awaited, the loading flag says whether one is, and no message
  is stored while one is.
\<close>

definition one_request :: "session \<Rightarrow> bool" where
  "one_request w \<longleftrightarrow>
     length (inflight w) \<le> 1 \<and>
     (isLoading (ui w) \<longleftrightarrow> inflight w \<noteq> []) \<and>
     (isLoading (ui w) \<longrightarrow> error (ui w) = None)"

section \<open>Basic facts\<close>

lemma sample_estimate_shape: "is_CostEstimate sample_estimate"
  by code_simp

lemma truthy_sample: "truthy sample_estimate"
  by (simp add: sample_estimate_def)

lemma CostEstimate_not_array: "is_CostEstimate d \<Longrightarrow> \<not> Array_isArray d"
  by (cases d) (simp_all add: is_CostEstimate_def)

lemma settle_not_loading: "\<not> isLoading (handleSubmit_settle r s)"
  by (cases r) (simp_all add: handleSubmit_catch_def split: option.splits)

lemma one_request_initial: "one_request initial_session"
  by (simp add: one_request_def initial_session_def initial_state_def)

lemma one_request_step: "one_request w \<Longrightarrow> one_request (step e w)"
proof (cases e)
  case (Edit c)
  then show "one_request w \<Longrightarrow> ?thesis" by (simp add: one_request_def)
next
  case Submit
  then show "one_request w \<Longrightarrow> ?thesis"
    by (auto simp: one_request_def submit_offered_def issue_def handleSubmit_begin_def)
next
  case Retry
  then show "one_request w \<Longrightarrow> ?thesis"
    by (auto simp: one_request_def retry_offered_def issue_def handleSubmit_begin_def
        handleRetry_def)
next
  case Back
  then show "one_request w \<Longrightarrow> ?thesis"
    by (simp add: one_request_def handleBackToForm_def)
next
  case (Settle i r)
  assume inv: "one_request w"
  show ?thesis
  proof (cases "i < length (inflight w)")
    case True
    with inv have "length (inflight w) = 1" and i0: "i = 0"
      by (auto simp: one_request_def)
    then obtain x where "inflight w = [x]"
      by (cases "inflight w") auto
    with i0 Settle show ?thesis
      by (simp add: one_request_def settle_not_loading)
  next
    case False
    with inv Settle show ?thesis by simp
  qed
qed

lemma one_request_run: "one_request w \<Longrightarrow> one_request (run es w)"
  by (induction es arbitrary: w) (simp_all add: one_request_step)

lemma run_fill_form:
  "run fill_form initial_session =
     \<lparr> ui = initial_state\<lparr>formData := scenarioA_form\<rparr>, inflight = [], sent = [] \<rparr>"
  by (simp add: fill_form_def initial_session_def initial_state_def input_offered_def
      scenarioA_form_def)

lemma run_append: "run (es @ fs) w = run fs (run es w)"
  by (induction es arbitrary: w) simp_all

lemma valid_scenarioA: "isFormValid scenarioA_form"
  by (simp add: isFormValid_def scenarioA_form_def initialFormData_def)

lemma run_submit:
  "run (fill_form @ [Submit]) initial_session =
     \<lparr> ui = initial_state\<lparr>formData := scenarioA_form, isLoading := True\<rparr>,
       inflight = [requestData scenarioA_form], sent = [requestData scenarioA_form] \<rparr>"
  by (simp add: run_append run_fill_form submit_offered_def valid_scenarioA issue_def
      handleSubmit_begin_def initial_state_def)

lemma run_success:
  "run (fill_form @ [Submit, Settle 0 (Responded 200 (Some sample_estimate))]) initial_session =
     \<lparr> ui = initial_state\<lparr>formData := scenarioA_form, estimate := sample_estimate,
            showResults := True\<rparr>,
       inflight = [], sent = [requestData scenarioA_form] \<rparr>"
proof -
  have "run (fill_form @ [Submit, Settle 0 (Responded 200 (Some sample_estimate))]) initial_session
      = step (Settle 0 (Responded 200 (Some sample_estimate))) (run (fill_form @ [Submit]) initial_session)"
    by (simp add: run_append)
  also have "\<dots> = \<lparr> ui = initial_state\<lparr>formData := scenarioA_form, estimate := sample_estimate,
            showResults := True\<rparr>, inflight = [], sent = [requestData scenarioA_form] \<rparr>"
    using CostEstimate_not_array [OF sample_estimate_shape]
    by (simp add: run_submit response_ok_def estimateData_def initial_state_def)
  finally show ?thesis .
qed

lemma run_failed_retry:
  "run (fill_form @ [Submit, Settle 0 (Responded 200 (Some sample_estimate)), Retry,
                     Settle 0 (Responded 500 None)]) initial_session =
     \<lparr> ui = initial_state\<lparr>formData := scenarioA_form, estimate := sample_estimate,
            error := Some errorMessage, showResults := True\<rparr>,
       inflight = [],
       sent = [requestData scenarioA_form, requestData scenarioA_form] \<rparr>"
proof -
  have "run (fill_form @ [Submit, Settle 0 (Responded 200 (Some sample_estimate)), Retry,
                     Settle 0 (Responded 500 None)]) initial_session
      = run [Retry, Settle 0 (Responded 500 None)]
          (run (fill_form @ [Submit, Settle 0 (Responded 200 (Some sample_estimate))])
             initial_session)"
    by (simp only: run_append [symmetric] append_assoc append.simps)
  also have "\<dots> = \<lparr> ui = initial_state\<lparr>formData := scenarioA_form, estimate := sample_estimate,
            error := Some errorMessage, showResults := True\<rparr>,
       inflight = [],
       sent = [requestData scenarioA_form, requestData scenarioA_form] \<rparr>"
    by (simp add: run_success retry_offered_def truthy_sample issue_def handleRetry_def
        handleSubmit_begin_def handleSubmit_catch_def response_ok_def initial_state_def)
  finally show ?thesis .
qed

lemma Submitting_iff: "controllerState s = Submitting \<longleftrightarrow> isLoading s"
  by (simp add: controllerState_def)

lemma Failed_iff: "controllerState s = Failed \<longleftrightarrow> \<not> isLoading s \<and> error s \<noteq> None"
  by (simp add: controllerState_def)

lemma one_request_reachable: "one_request (run es initial_session)"
  by (rule one_request_run [OF one_request_initial])

lemma run_edit_while_loading:
  "run (fill_form @ [Submit, Edit (Set_callsPerDay 99),
                     Settle 0 (Responded 200 (Some sample_estimate))]) initial_session =
     \<lparr> ui = initial_state\<lparr>formData := scenarioA_form\<lparr>callsPerDay := 99\<rparr>,
            estimate := sample_estimate, showResults := True\<rparr>,
       inflight = [], sent = [requestData scenarioA_form] \<rparr>"
proof -
  have "run (fill_form @ [Submit, Edit (Set_callsPerDay 99),
                     Settle 0 (Responded 200 (Some sample_estimate))]) initial_session =
        run [Edit (Set_callsPerDay 99), Settle 0 (Responded 200 (Some sample_estimate))]
          (run (fill_form @ [Submit]) initial_session)"
    by (simp only: run_append [symmetric] append_assoc append.simps)
  also have "\<dots> = \<lparr> ui = initial_state\<lparr>formData := scenarioA_form\<lparr>callsPerDay := 99\<rparr>,
            estimate := sample_estimate, showResults := True\<rparr>,
       inflight = [], sent = [requestData scenarioA_form] \<rparr>"
    using CostEstimate_not_array [OF sample_estimate_shape]
    by (simp add: run_submit input_offered_def response_ok_def estimateData_def initial_state_def)
  finally show ?thesis .
qed

section \<open>The claims\<close>

text \<open>
  C7. The form is valid exactly when the three numeric fields are positive and the three
  providers and the knowledge-base size are not empty. Validity is a function of the
  form data alone: changes to two different fields give the same form data, hence the
  same verdict, in either order.
\<close>

theorem isFormValid_iff:
  "(isFormValid fd \<longleftrightarrow>
      callsPerDay fd > 0 \<and> avgCallDuration fd > 0 \<and> estimatedUsers fd > 0 \<and>
      llmProvider fd \<noteq> [] \<and> sttProvider fd \<noteq> [] \<and> ttsProvider fd \<noteq> [] \<and>
      knowledgeBaseSize fd \<noteq> []) \<and>
   (field_name c1 \<noteq> field_name c2 \<longrightarrow>
      handleInputChange c1 (handleInputChange c2 fd) =
      handleInputChange c2 (handleInputChange c1 fd))"
  unfolding isFormValid_def by (cases c1; cases c2; simp)

theorem isFormValid_iff_witness:
  "isFormValid scenarioA_form \<and>
   field_name (Set_callsPerDay 0) \<noteq> field_name (Set_llmProvider []) \<and>
   handleInputChange (Set_callsPerDay 0) (handleInputChange (Set_llmProvider []) scenarioA_form) =
   handleInputChange (Set_llmProvider []) (handleInputChange (Set_callsPerDay 0) scenarioA_form) \<and>
   \<not> isFormValid (handleInputChange (Set_callsPerDay 0) scenarioA_form) \<and>
   \<not> isFormValid (handleInputChange (Set_llmProvider []) scenarioA_form)"
  using isFormValid_iff [of scenarioA_form "Set_callsPerDay 0" "Set_llmProvider []"]
    isFormValid_iff [of "handleInputChange (Set_callsPerDay 0) scenarioA_form"]
    isFormValid_iff [of "handleInputChange (Set_llmProvider []) scenarioA_form"]
  by (simp add: scenarioA_form_def initialFormData_def)

text \<open>
  C6. Whatever the form data holds, the request has \<open>selfHosted\<close> false and
  \<open>gpuInstanceType\<close> empty, carries the seven active fields as stored, has exactly
  these nine properties, so none of the three custom-provider fields, and does not
  depend on the stored values of the five fields it leaves out.
\<close>

theorem requestData_forced_fields:
  "property (requestData fd) ''selfHosted'' = JBool False \<and>
   property (requestData fd) ''gpuInstanceType'' = JString [] \<and>
   property (requestData fd) ''callsPerDay'' = JNumber (of_int (callsPerDay fd)) \<and>
   property (requestData fd) ''avgCallDuration'' = JNumber (of_int (avgCallDuration fd)) \<and>
   property (requestData fd) ''estimatedUsers'' = JNumber (of_int (estimatedUsers fd)) \<and>
   property (requestData fd) ''llmProvider'' = JString (llmProvider fd) \<and>
   property (requestData fd) ''sttProvider'' = JString (sttProvider fd) \<and>
   property (requestData fd) ''ttsProvider'' = JString (ttsProvider fd) \<and>
   property (requestData fd) ''knowledgeBaseSize'' = JString (knowledgeBaseSize fd) \<and>
   keys (requestData fd) =
     [''callsPerDay'', ''avgCallDuration'', ''estimatedUsers'', ''llmProvider'', ''sttProvider'',
      ''ttsProvider'', ''knowledgeBaseSize'', ''selfHosted'', ''gpuInstanceType''] \<and>
   ''customLlmProvider'' \<notin> set (keys (requestData fd)) \<and>
   ''customSttProvider'' \<notin> set (keys (requestData fd)) \<and>
   ''customTtsProvider'' \<notin> set (keys (requestData fd)) \<and>
   requestData (fd\<lparr>selfHosted := b, gpuInstanceType := g, customLlmProvider := cl,
                    customSttProvider := cs, customTtsProvider := ct\<rparr>) = requestData fd"
  by (simp add: requestData_def)

text \<open>Scenario A of the running example.\<close>

lemma scenario_A:
  "requestData scenarioA_form = JObject
     [ (''callsPerDay'', JNumber 50), (''avgCallDuration'', JNumber 5),
       (''estimatedUsers'', JNumber 10), (''llmProvider'', JString ''OpenAI''),
       (''sttProvider'', JString ''Deepgram''), (''ttsProvider'', JString ''ElevenLabs''),
       (''knowledgeBaseSize'', JString ''Medium (1-10MB)''), (''selfHosted'', JBool False),
       (''gpuInstanceType'', JString []) ]"
  by (simp add: requestData_def scenarioA_form_def initialFormData_def)

text \<open>
  C8. For a document of the declared shape, the estimate taken from the one-element
  list holding it is the estimate taken from the document itself, and the handler ends
  in the same state on either reply.
\<close>

theorem estimateData_singleton:
  "is_CostEstimate d \<Longrightarrow>
     estimateData (JArray [d]) = estimateData d \<and>
     handleSubmit_settle (Responded st (Some (JArray [d]))) s =
     handleSubmit_settle (Responded st (Some d)) s"
  by (simp add: estimateData_def CostEstimate_not_array)

theorem estimateData_singleton_witness:
  "is_CostEstimate sample_estimate \<and>
   estimateData (JArray [sample_estimate]) = estimateData sample_estimate \<and>
   estimateData sample_estimate = sample_estimate \<and>
   handleSubmit_settle (Responded 200 (Some (JArray [sample_estimate]))) initial_state =
   handleSubmit_settle (Responded 200 (Some sample_estimate)) initial_state"
  using estimateData_singleton [OF sample_estimate_shape, of 200 initial_state]
    sample_estimate_shape CostEstimate_not_array [OF sample_estimate_shape]
  by (simp add: estimateData_def)

text \<open>
  C9. App.tsx and App\_fixed.tsx compute the same validity, the same request and the
  same failure message, and \<open>handleSubmit\<close> of App.tsx, seen without the view flag,
  is \<open>handleSubmit\<close> of App\_fixed.tsx, in both of its parts and from the same
  initial state.
\<close>

theorem variants_agree:
  "isFormValid_fixed fd = isFormValid fd \<and>
   requestData_fixed fd = requestData fd \<and>
   errorMessage_fixed = errorMessage \<and>
   forget_view (fst (handleSubmit_begin s)) = fst (handleSubmit_begin_fixed (forget_view s)) \<and>
   snd (handleSubmit_begin s) = snd (handleSubmit_begin_fixed (forget_view s)) \<and>
   forget_view (handleSubmit_settle r s) = handleSubmit_settle_fixed r (forget_view s) \<and>
   forget_view initial_state = initial_state_fixed"
  by (cases r)
     (simp_all add: isFormValid_fixed_def isFormValid_def requestData_fixed_def requestData_def
       errorMessage_fixed_def errorMessage_def forget_view_def handleSubmit_begin_def
       handleSubmit_begin_fixed_def handleSubmit_catch_def handleSubmit_catch_fixed_def
       initial_state_def initial_state_fixed_def split: option.splits)

text \<open>
  C5 as stated fails: after a first estimate and a failed retry both an estimate and a
  message are stored and the back button is offered; going back leaves neither.
\<close>

theorem handleBackToForm_alters_counterexample:
  "back_offered (ui (run (fill_form @ [Submit, Settle 0 (Responded 200 (Some sample_estimate)),
       Retry, Settle 0 (Responded 500 None)]) initial_session)) \<and>
   estimate (ui (run (fill_form @ [Submit, Settle 0 (Responded 200 (Some sample_estimate)),
       Retry, Settle 0 (Responded 500 None)]) initial_session)) = sample_estimate \<and>
   error (ui (run (fill_form @ [Submit, Settle 0 (Responded 200 (Some sample_estimate)),
       Retry, Settle 0 (Responded 500 None)]) initial_session)) = Some errorMessage \<and>
   estimate (ui (run (fill_form @ [Submit, Settle 0 (Responded 200 (Some sample_estimate)),
       Retry, Settle 0 (Responded 500 None), Back]) initial_session)) = JNull \<and>
   error (ui (run (fill_form @ [Submit, Settle 0 (Responded 200 (Some sample_estimate)),
       Retry, Settle 0 (Responded 500 None), Back]) initial_session)) = None \<and>
   sample_estimate \<noteq> JNull"
proof -
  have "run (fill_form @ [Submit, Settle 0 (Responded 200 (Some sample_estimate)),
       Retry, Settle 0 (Responded 500 None), Back]) initial_session =
     run [Back] (run (fill_form @ [Submit, Settle 0 (Responded 200 (Some sample_estimate)),
       Retry, Settle 0 (Responded 500 None)]) initial_session)"
    by (simp only: run_append [symmetric] append_assoc append.simps)
  moreover have "sample_estimate \<noteq> JNull"
    by (simp add: sample_estimate_def)
  ultimately show ?thesis
    by (simp add: run_failed_retry back_offered_def truthy_sample handleBackToForm_def)
qed

text \<open>
  C5 (as amended). Going back to the form selects the form screen and, in the same
  action, clears the stored estimate and the stored message; the form data and the
  loading flag are left as they are.
\<close>

theorem handleBackToForm_clears:
  "viewState (handleBackToForm s) = FormScreen \<and>
   estimate (handleBackToForm s) = JNull \<and>
   error (handleBackToForm s) = None \<and>
   formData (handleBackToForm s) = formData s \<and>
   isLoading (handleBackToForm s) = isLoading s"
  by (simp add: handleBackToForm_def viewState_def)

text \<open>
  C4 as stated fails: when a retry issued from the results screen is answered with
  status 500, the lifecycle is \<open>Failed\<close> and the view is still the results screen.
\<close>

theorem failure_on_results_screen_counterexample:
  "controllerState (ui (run (fill_form @ [Submit, Settle 0 (Responded 200 (Some sample_estimate)),
       Retry, Settle 0 (Responded 500 None)]) initial_session)) = Failed \<and>
   viewState (ui (run (fill_form @ [Submit, Settle 0 (Responded 200 (Some sample_estimate)),
       Retry, Settle 0 (Responded 500 None)]) initial_session)) \<noteq> FormScreen"
  by (simp add: run_failed_retry controllerState_def viewState_def initial_state_def)

text \<open>
  C4 (as amended). When the call resolves with a status outside 200 to 299, the
  lifecycle ends in \<open>Failed\<close> with the generic message, and the failure changes
  neither the stored estimate nor the view: both are what they were immediately before
  the call resolved, whichever screen that was.
\<close>

theorem failure_status_settles_failed:
  "\<not> response_ok st \<Longrightarrow>
     controllerState (handleSubmit_settle (Responded st body) s) = Failed \<and>
     error (handleSubmit_settle (Responded st body) s) = Some errorMessage \<and>
     estimate (handleSubmit_settle (Responded st body) s) = estimate s \<and>
     viewState (handleSubmit_settle (Responded st body) s) = viewState s"
  by (simp add: handleSubmit_catch_def controllerState_def viewState_def)

theorem failure_status_settles_failed_witness:
  "\<not> response_ok 500 \<and>
   controllerState (handleSubmit_settle (Responded 500 None) (fst (handleSubmit_begin initial_state))) = Failed \<and>
   error (handleSubmit_settle (Responded 500 None) (fst (handleSubmit_begin initial_state))) = Some errorMessage \<and>
   estimate (handleSubmit_settle (Responded 500 None) (fst (handleSubmit_begin initial_state))) = JNull \<and>
   viewState (handleSubmit_settle (Responded 500 None) (fst (handleSubmit_begin initial_state))) = FormScreen"
proof -
  have h: "\<not> response_ok 500" by (simp add: response_ok_def)
  show ?thesis
    using h failure_status_settles_failed [OF h, of None "fst (handleSubmit_begin initial_state)"]
    by (simp add: handleSubmit_begin_def initial_state_def viewState_def)
qed

text \<open>
  C1 as stated fails: a reply with status 200 whose body is the empty list, or an
  object with none of the required properties, does not end in \<open>Failed\<close>, and the
  stored estimate, \<open>null\<close> before, becomes \<open>undefined\<close> or that object.
\<close>

theorem unchecked_reply_counterexample:
  "response_ok 200 \<and>
   \<not> is_CostEstimate (JObject []) \<and>
   controllerState (ui (run (fill_form @ [Submit, Settle 0 (Responded 200 (Some (JArray [])))])
       initial_session)) \<noteq> Failed \<and>
   estimate (ui (run (fill_form @ [Submit, Settle 0 (Responded 200 (Some (JArray [])))])
       initial_session)) = JUndefined \<and>
   controllerState (ui (run (fill_form @ [Submit, Settle 0 (Responded 200 (Some (JObject [])))])
       initial_session)) \<noteq> Failed \<and>
   estimate (ui (run (fill_form @ [Submit, Settle 0 (Responded 200 (Some (JObject [])))])
       initial_session)) = JObject [] \<and>
   estimate (ui (run (fill_form @ [Submit]) initial_session)) = JNull"
proof -
  have "\<And>r. run (fill_form @ [Submit, Settle 0 r]) initial_session =
     run [Settle 0 r] (run (fill_form @ [Submit]) initial_session)"
    by (simp only: run_append [symmetric] append_assoc append.simps)
  then show ?thesis
    by (simp add: run_submit response_ok_def estimateData_def initial_state_def
        controllerState_def is_CostEstimate_def is_costSummary_def)
qed

text \<open>
  C1 (as amended). On a success status, a body that cannot be decoded ends in
  \<open>Failed\<close> with the generic message and the stored estimate unchanged. A decoded
  body is never rejected and never completed: the stored estimate becomes the first
  element of a list (\<open>undefined\<close> for the empty list) or the document itself, the
  message is left as it was, the results view is selected and loading ends.
\<close>

theorem success_status_settle:
  "response_ok st \<Longrightarrow>
     controllerState (handleSubmit_settle (Responded st None) s) = Failed \<and>
     error (handleSubmit_settle (Responded st None) s) = Some errorMessage \<and>
     estimate (handleSubmit_settle (Responded st None) s) = estimate s \<and>
     estimate (handleSubmit_settle (Responded st (Some (JArray []))) s) = JUndefined \<and>
     estimate (handleSubmit_settle (Responded st (Some (JArray (d # ds)))) s) = d \<and>
     (\<not> Array_isArray d \<longrightarrow> estimate (handleSubmit_settle (Responded st (Some d)) s) = d) \<and>
     error (handleSubmit_settle (Responded st (Some d)) s) = error s \<and>
     showResults (handleSubmit_settle (Responded st (Some d)) s) \<and>
     \<not> isLoading (handleSubmit_settle (Responded st (Some d)) s)"
  by (simp add: handleSubmit_catch_def controllerState_def estimateData_def)

theorem success_status_settle_witness:
  "response_ok 200 \<and>
   controllerState (handleSubmit_settle (Responded 200 None) initial_state) = Failed \<and>
   estimate (handleSubmit_settle (Responded 200 None) initial_state) = JNull \<and>
   estimate (handleSubmit_settle (Responded 200 (Some (JArray []))) initial_state) = JUndefined \<and>
   \<not> Array_isArray (JObject []) \<and>
   estimate (handleSubmit_settle (Responded 200 (Some (JObject []))) initial_state) = JObject [] \<and>
   error (handleSubmit_settle (Responded 200 (Some (JObject []))) initial_state) = None"
proof -
  have h: "response_ok 200" by (simp add: response_ok_def)
  show ?thesis
    using h success_status_settle [OF h, where s = initial_state and d = "JObject []" and ds = "[]"]
    by (simp add: initial_state_def)
qed

text \<open>
  C2 as stated fails: the form stays editable while the call is awaited, so after a
  submit, an edit of \<open>callsPerDay\<close> and a successful reply, the request a retry sends
  is not the request the submit sent.
\<close>

theorem retry_after_edit_counterexample:
  "sent (run (fill_form @ [Submit]) initial_session) = [requestData scenarioA_form] \<and>
   sent (run (fill_form @ [Submit, Edit (Set_callsPerDay 99),
                           Settle 0 (Responded 200 (Some sample_estimate))]) initial_session) =
     [requestData scenarioA_form] \<and>
   last (sent (run (fill_form @ [Submit, Edit (Set_callsPerDay 99),
                           Settle 0 (Responded 200 (Some sample_estimate)), Retry])
                 initial_session)) \<noteq> requestData scenarioA_form"
proof -
  have "run (fill_form @ [Submit, Edit (Set_callsPerDay 99),
                           Settle 0 (Responded 200 (Some sample_estimate)), Retry])
                 initial_session =
        run [Retry] (run (fill_form @ [Submit, Edit (Set_callsPerDay 99),
                           Settle 0 (Responded 200 (Some sample_estimate))]) initial_session)"
    by (simp only: run_append [symmetric] append_assoc append.simps)
  then show ?thesis
    by (simp add: run_submit run_edit_while_loading retry_offered_def truthy_sample issue_def
        handleRetry_def handleSubmit_begin_def initial_state_def requestData_def
        scenarioA_form_def initialFormData_def)
qed

text \<open>
  C2 (as amended). A retry sends the request derived from the form data as it is when
  the retry is made; this is the request of an earlier submit whenever the form data is
  what it was at that submit.
\<close>

theorem retry_sends_current_form:
  "retry_offered (ui w) \<Longrightarrow>
     sent (step Retry w) = sent w @ [requestData (formData (ui w))] \<and>
     inflight (step Retry w) = inflight w @ [requestData (formData (ui w))] \<and>
     (submit_offered (ui w0) \<and> formData (ui w) = formData (ui w0) \<longrightarrow>
        last (sent (step Retry w)) = last (sent (step Submit w0)))"
  by (simp add: issue_def handleRetry_def handleSubmit_begin_def)

theorem retry_sends_current_form_witness:
  "retry_offered (ui (run (fill_form @ [Submit, Settle 0 (Responded 200 (Some sample_estimate))])
                        initial_session)) \<and>
   submit_offered (ui (run fill_form initial_session)) \<and>
   formData (ui (run (fill_form @ [Submit, Settle 0 (Responded 200 (Some sample_estimate))])
                        initial_session)) = formData (ui (run fill_form initial_session)) \<and>
   last (sent (step Retry (run (fill_form @ [Submit, Settle 0 (Responded 200 (Some sample_estimate))])
                        initial_session))) =
   last (sent (step Submit (run fill_form initial_session))) \<and>
   sent (step Retry (run (fill_form @ [Submit, Settle 0 (Responded 200 (Some sample_estimate))])
                        initial_session)) = [requestData scenarioA_form, requestData scenarioA_form]"
proof -
  have r: "retry_offered (ui (run (fill_form @ [Submit, Settle 0 (Responded 200 (Some sample_estimate))])
                        initial_session))"
    by (simp add: run_success retry_offered_def truthy_sample initial_state_def)
  have s: "submit_offered (ui (run fill_form initial_session))"
    by (simp add: run_fill_form submit_offered_def valid_scenarioA initial_state_def)
  have f: "formData (ui (run (fill_form @ [Submit, Settle 0 (Responded 200 (Some sample_estimate))])
                        initial_session)) = formData (ui (run fill_form initial_session))"
    by (simp add: run_success run_fill_form initial_state_def)
  note t = retry_sends_current_form [OF r, of "run fill_form initial_session"]
  from t s f have l: "last (sent (step Retry (run (fill_form @ [Submit, Settle 0 (Responded 200 (Some sample_estimate))])
                        initial_session))) =
   last (sent (step Submit (run fill_form initial_session)))"
    by blast
  from t have "sent (step Retry (run (fill_form @ [Submit, Settle 0 (Responded 200 (Some sample_estimate))])
                        initial_session)) =
      sent (run (fill_form @ [Submit, Settle 0 (Responded 200 (Some sample_estimate))])
                        initial_session) @
      [requestData (formData (ui (run (fill_form @ [Submit, Settle 0 (Responded 200 (Some sample_estimate))])
                        initial_session)))]"
    by blast
  also have "\<dots> = [requestData scenarioA_form, requestData scenarioA_form]"
    by (simp add: run_success initial_state_def)
  finally show ?thesis
    using r s f l by blast
qed

text \<open>
  C3. While a call is awaited the submit control (and the retry control) does nothing:
  the session, with its awaited and sent requests, is unchanged. After any sequence of
  events at most one request is awaited, and one is awaited exactly in the state
  \<open>Submitting\<close>.
\<close>

theorem submit_ignored_while_submitting:
  "(controllerState (ui w) = Submitting \<longrightarrow> step Submit w = w \<and> step Retry w = w) \<and>
   length (inflight (run es initial_session)) \<le> 1 \<and>
   (controllerState (ui (run es initial_session)) = Submitting \<longleftrightarrow>
      inflight (run es initial_session) \<noteq> [])"
  using one_request_reachable [of es]
  by (simp add: Submitting_iff one_request_def submit_offered_def retry_offered_def)

theorem submit_ignored_while_submitting_witness:
  "controllerState (ui (run (fill_form @ [Submit]) initial_session)) = Submitting \<and>
   step Submit (run (fill_form @ [Submit]) initial_session) =
     run (fill_form @ [Submit]) initial_session \<and>
   run (fill_form @ [Submit, Submit]) initial_session =
     run (fill_form @ [Submit]) initial_session \<and>
   inflight (run (fill_form @ [Submit, Submit]) initial_session) = [requestData scenarioA_form] \<and>
   sent (run (fill_form @ [Submit, Submit]) initial_session) = [requestData scenarioA_form]"
proof -
  have l: "controllerState (ui (run (fill_form @ [Submit]) initial_session)) = Submitting"
    by (simp add: run_submit controllerState_def initial_state_def)
  have e: "run (fill_form @ [Submit, Submit]) initial_session =
        run [Submit] (run (fill_form @ [Submit]) initial_session)"
    by (simp only: run_append [symmetric] append_assoc append.simps)
  from l submit_ignored_while_submitting [of "run (fill_form @ [Submit]) initial_session" "[]"]
  have n: "step Submit (run (fill_form @ [Submit]) initial_session) =
     run (fill_form @ [Submit]) initial_session"
    by blast
  with l e have "run (fill_form @ [Submit, Submit]) initial_session =
     run (fill_form @ [Submit]) initial_session"
    by simp
  with l n show ?thesis
    by (simp add: run_submit)
qed

text \<open>
  C10. Both ways of starting a submission clear the message. After any sequence of
  events, no message is stored in the state \<open>Submitting\<close>, none is stored after an
  awaited call is answered with a success status and a decoded body, and a stored
  message means the state is \<open>Failed\<close>.
\<close>

theorem error_null_unless_failed:
  "error (fst (handleSubmit_begin s)) = None \<and>
   error (fst (handleRetry s)) = None \<and>
   (controllerState (ui (run es initial_session)) = Submitting \<longrightarrow>
      error (ui (run es initial_session)) = None) \<and>
   (i < length (inflight (run es initial_session)) \<and> response_ok st \<longrightarrow>
      error (ui (step (Settle i (Responded st (Some d))) (run es initial_session))) = None) \<and>
   (error (ui (run es initial_session)) \<noteq> None \<longrightarrow>
      controllerState (ui (run es initial_session)) = Failed)"
proof -
  have inv: "one_request (run es initial_session)"
    by (rule one_request_reachable)
  have a: "error (fst (handleSubmit_begin s)) = None \<and> error (fst (handleRetry s)) = None"
    by (simp add: handleSubmit_begin_def handleRetry_def)
  have b: "controllerState (ui (run es initial_session)) = Submitting \<longrightarrow>
      error (ui (run es initial_session)) = None"
    using inv by (simp add: Submitting_iff one_request_def)
  have c: "i < length (inflight (run es initial_session)) \<and> response_ok st \<longrightarrow>
      error (ui (step (Settle i (Responded st (Some d))) (run es initial_session))) = None"
    using inv by (auto simp: one_request_def)
  have d: "error (ui (run es initial_session)) \<noteq> None \<longrightarrow>
      controllerState (ui (run es initial_session)) = Failed"
    using inv by (auto simp: Failed_iff one_request_def)
  from a b c d show ?thesis by blast
qed

theorem error_null_unless_failed_witness:
  "controllerState (ui (run (fill_form @ [Submit]) initial_session)) = Submitting \<and>
   error (ui (run (fill_form @ [Submit]) initial_session)) = None \<and>
   0 < length (inflight (run (fill_form @ [Submit]) initial_session)) \<and> response_ok 200 \<and>
   error (ui (step (Settle 0 (Responded 200 (Some sample_estimate)))
                (run (fill_form @ [Submit]) initial_session))) = None \<and>
   error (ui (run (fill_form @ [Submit, Settle 0 (Responded 200 (Some sample_estimate)), Retry,
                     Settle 0 (Responded 500 None)]) initial_session)) \<noteq> None \<and>
   controllerState (ui (run (fill_form @ [Submit, Settle 0 (Responded 200 (Some sample_estimate)),
                     Retry, Settle 0 (Responded 500 None)]) initial_session)) = Failed"
proof -
  have l: "controllerState (ui (run (fill_form @ [Submit]) initial_session)) = Submitting"
    by (simp add: run_submit controllerState_def initial_state_def)
  have p: "0 < length (inflight (run (fill_form @ [Submit]) initial_session)) \<and> response_ok 200"
    by (simp add: run_submit response_ok_def)
  have f: "error (ui (run (fill_form @ [Submit, Settle 0 (Responded 200 (Some sample_estimate)), Retry,
                     Settle 0 (Responded 500 None)]) initial_session)) \<noteq> None"
    by (simp add: run_failed_retry)
  from l p f
    error_null_unless_failed [of initial_state "fill_form @ [Submit]" 0 200 sample_estimate]
    error_null_unless_failed [of initial_state "fill_form @ [Submit, Settle 0 (Responded 200 (Some sample_estimate)), Retry,
                     Settle 0 (Responded 500 None)]" 0 200 sample_estimate]
  show ?thesis by blast
qed

end
